theory Spec2Isabelle
  imports Main "HOL-Library.Char_ord"
begin

section \<open>The image generation endpoint: history codec and request handler\<close>

text \<open>
  The development embeds the server route \<^verbatim>\<open>POST\<close> (the second document of
  \<^verbatim>\<open>src/components/ImagePromptInput.tsx\<close>, lines 88-339 of that file).

  Conventions of the embedding.
  \<^item> A JavaScript string is a \<^typ>\<open>string\<close>: a list of code units, each below 256.
  \<^item> An optional field is an \<^typ>\<open>'a option\<close>; \<open>None\<close> is \<^verbatim>\<open>undefined\<close>
    (or \<^verbatim>\<open>null\<close>). The fields of the request have the types the endpoint's
    interface gives them (\<^verbatim>\<open>prompt\<close> and \<^verbatim>\<open>image\<close> strings,
    \<^verbatim>\<open>history\<close> an array of \<^verbatim>\<open>HistoryItem\<close>), so the test
    \<^verbatim>\<open>typeof inputImage !== "string"\<close> is never true and is left out.
  \<^item> A thrown value is a \<open>Thrown\<close>; every \<^verbatim>\<open>throw\<close> and every failing
    external call is a branch \<open>Inl\<close> of a sum, and each \<^verbatim>\<open>catch\<close> is a case
    distinction on it.
  \<^item> The external model is a parameter of the handler: a record of the two operations
    the handler uses, \<^verbatim>\<open>model.startChat\<close> and \<^verbatim>\<open>chat.sendMessage\<close>.
    The handler returns, next to its HTTP response, the list of the calls it made to them.
\<close>

subsection \<open>JavaScript string primitives\<close>

text \<open>\<^verbatim>\<open>if (s)\<close> for an optional string: defined and not empty.\<close>

fun truthy :: "string option \<Rightarrow> bool" where
  "truthy None = False"
| "truthy (Some s) = (s \<noteq> [])"

text \<open>\<^verbatim>\<open>s.startsWith(p)\<close>.\<close>

fun startsWith :: "string \<Rightarrow> string \<Rightarrow> bool" where
  "startsWith s [] = True"
| "startsWith [] (p # ps) = False"
| "startsWith (c # cs) (p # ps) = (c = p \<and> startsWith cs ps)"

text \<open>\<^verbatim>\<open>s.includes(p)\<close>: \<open>p\<close> occurs in \<open>s\<close> as a contiguous substring.\<close>

fun includes_str :: "string \<Rightarrow> string \<Rightarrow> bool" where
  "includes_str [] p = (p = [])"
| "includes_str (c # cs) p = (startsWith (c # cs) p \<or> includes_str cs p)"

text \<open>
  \<^verbatim>\<open>s.split(sep)\<close> for a separator of one code unit: the segments between the
  occurrences of \<open>sep\<close>, all of them; the empty string gives one empty segment.
\<close>

fun split_str :: "char \<Rightarrow> string \<Rightarrow> string list" where
  "split_str sep [] = [[]]"
| "split_str sep (c # cs) =
     (if c = sep then [] # split_str sep cs
      else (case split_str sep cs of
              [] \<Rightarrow> [[c]]
            | seg # segs \<Rightarrow> (c # seg) # segs))"

text \<open>The class \<^verbatim>\<open>\s\<close> of a regular expression, on code units below 256.\<close>

definition is_space :: "char \<Rightarrow> bool" where
  "is_space c = (c \<in> set [CHR 0x09, CHR 0x0A, CHR 0x0B, CHR 0x0C, CHR 0x0D, CHR 0x20, CHR 0xA0])"

text \<open>The class \<^verbatim>\<open>[A-Za-z0-9+/=]\<close>.\<close>

definition is_base64_char :: "char \<Rightarrow> bool" where
  "is_base64_char c =
     ((CHR ''A'' \<le> c \<and> c \<le> CHR ''Z'') \<or> (CHR ''a'' \<le> c \<and> c \<le> CHR ''z'') \<or>
      (CHR ''0'' \<le> c \<and> c \<le> CHR ''9'') \<or> c = CHR ''+'' \<or> c = CHR ''/'' \<or> c = CHR ''='')"

text \<open>\<^verbatim>\<open>/^([A-Za-z0-9+/=]+)$/.test(s.replace(/\s/g, ""))\<close>.\<close>

definition base64_test :: "string \<Rightarrow> bool" where
  "base64_test s =
     (let stripped = filter (\<lambda>c. \<not> is_space c) s
      in stripped \<noteq> [] \<and> list_all is_base64_char stripped)"

subsection \<open>Data model\<close>

datatype Role = User | Model

text \<open>\<^verbatim>\<open>HistoryPart\<close> and \<^verbatim>\<open>HistoryItem\<close> of \<^verbatim>\<open>@/lib/types\<close>.\<close>

record HistoryPart =
  part_text :: "string option"
  part_image :: "string option"

record HistoryItem =
  role :: Role
  parts :: "HistoryPart list"

text \<open>
  A part on the wire, sent to the model or received from it: an object with the optional
  keys \<^verbatim>\<open>text\<close> and \<^verbatim>\<open>inlineData\<close>.
\<close>

record InlineData =
  data :: string
  mimeType :: string

record WirePart =
  wp_text :: "string option"
  wp_inlineData :: "InlineData option"

record FormattedHistoryItem =
  f_role :: Role
  f_parts :: "WirePart list"

text \<open>\<^verbatim>\<open>Object.keys(part).length\<close>.\<close>

definition keys_length :: "WirePart \<Rightarrow> nat" where
  "keys_length p =
     (if wp_text p = None then 0 else 1) + (if wp_inlineData p = None then 0 else 1)"

text \<open>The object literals \<^verbatim>\<open>{ text: s }\<close> and \<^verbatim>\<open>{ inlineData: d }\<close>.\<close>

definition text_part :: "string \<Rightarrow> WirePart" where
  "text_part s = \<lparr>wp_text = Some s, wp_inlineData = None\<rparr>"

definition inline_part :: "InlineData \<Rightarrow> WirePart" where
  "inline_part d = \<lparr>wp_text = None, wp_inlineData = Some d\<rparr>"

subsection \<open>History codec\<close>

text \<open>
  \<^verbatim>\<open>url.includes("image/png") ? "image/png" : "image/jpeg"\<close>, written out twice
  in the source (lines 202-204 and 244-246).
\<close>

definition inferMimeType :: "string \<Rightarrow> string" where
  "inferMimeType url = (if includes_str url ''image/png'' then ''image/png'' else ''image/jpeg'')"

text \<open>The callback of the inner \<^verbatim>\<open>map\<close> (lines 192-210).\<close>

definition format_part :: "Role \<Rightarrow> HistoryPart \<Rightarrow> WirePart" where
  "format_part r part =
     (if truthy (part_text part) then text_part (the (part_text part))
      else if truthy (part_image part) \<and> r = User then
        (let img = the (part_image part);
             imgParts = split_str CHR '','' img
         in if length imgParts > 1
            then inline_part \<lparr>data = imgParts ! 1, mimeType = inferMimeType img\<rparr>
            else text_part [])
      else text_part [])"

text \<open>The callback of the outer \<^verbatim>\<open>map\<close> (lines 188-213), inner filter included.\<close>

definition format_item :: "HistoryItem \<Rightarrow> FormattedHistoryItem" where
  "format_item item =
     \<lparr>f_role = role item,
      f_parts = filter (\<lambda>part. keys_length part > 0) (map (format_part (role item)) (parts item))\<rparr>"

text \<open>\<^verbatim>\<open>formattedHistory\<close> (lines 185-215).\<close>

definition formattedHistory :: "HistoryItem list option \<Rightarrow> FormattedHistoryItem list" where
  "formattedHistory history =
     (case history of
        None \<Rightarrow> []
      | Some h \<Rightarrow>
          if length h > 0
          then filter (\<lambda>item. length (f_parts item) > 0) (map format_item h)
          else [])"

subsection \<open>The external model\<close>

text \<open>
  What a \<^verbatim>\<open>throw\<close> carries: an \<^verbatim>\<open>Error\<close> with its message, or any other
  value, given by what \<^verbatim>\<open>String(value)\<close> returns for it.
\<close>

datatype Thrown = Error string | NonError string

text \<open>
  A candidate of the model's response. \<open>Candidate ps\<close> has the parts \<open>ps\<close> as its
  \<^verbatim>\<open>content.parts\<close>. \<open>Malformed m\<close> is a candidate without \<^verbatim>\<open>content\<close> or
  without \<^verbatim>\<open>content.parts\<close>: reading the parts of it (lines 283-286) raises a
  \<^verbatim>\<open>TypeError\<close> whose message is \<open>m\<close>.
\<close>

datatype Candidate = Candidate "WirePart list" | Malformed string

record GenerateContentResponse =
  candidates :: "Candidate list option"

text \<open>
  \<open>startChat m history\<close> is \<open>Some e\<close> when opening the session throws \<open>e\<close>;
  \<open>sendMessage m history message\<close> is the reply of the session opened on \<open>history\<close>
  to \<open>message\<close>, or what the call throws.
\<close>

record ChatModel =
  startChat :: "FormattedHistoryItem list \<Rightarrow> Thrown option"
  sendMessage :: "FormattedHistoryItem list \<Rightarrow> WirePart list \<Rightarrow> Thrown + GenerateContentResponse"

datatype Call =
  StartChat "FormattedHistoryItem list"
| SendMessage "FormattedHistoryItem list" "WirePart list"

subsection \<open>Request and response of the endpoint\<close>

text \<open>\<^verbatim>\<open>const { prompt, image: inputImage, history } = requestData\<close>.\<close>

record Request =
  prompt :: "string option"
  inputImage :: "string option"
  history :: "HistoryItem list option"

text \<open>
  What \<^verbatim>\<open>NextResponse.json(body, { status })\<close> returns: the status and the keys of
  the body; a key the body does not have is \<open>None\<close>. The key
  \<^verbatim>\<open>description\<close> of a success is \<open>None\<close> when it is \<^verbatim>\<open>null\<close>.
\<close>

record Response =
  status :: nat
  r_success :: bool
  r_error :: "string option"
  r_details :: "string option"
  r_image :: "string option"
  r_description :: "string option"

record Outcome =
  response :: Response
  calls :: "Call list"

text \<open>\<^verbatim>\<open>NextResponse.json({ success: false, error, details }, { status })\<close>.\<close>

definition failure :: "nat \<Rightarrow> string \<Rightarrow> string option \<Rightarrow> Response" where
  "failure st err det =
     \<lparr>status = st, r_success = False, r_error = Some err, r_details = det,
      r_image = None, r_description = None\<rparr>"

subsection \<open>Request handler\<close>

text \<open>Validation of the image (lines 156-181): \<open>Some r\<close> is the early return of \<open>r\<close>.\<close>

definition validate_image :: "string option \<Rightarrow> Response option" where
  "validate_image img_opt =
     (if truthy img_opt then
        (let img = the img_opt in
         if \<not> startsWith img ''data:'' then
           Some (failure 400 ''Invalid image data URL format'' None)
         else
           (let imageParts = split_str CHR '','' img in
            if length imageParts < 2 then
              Some (failure 400 ''Malformed image data URL'' None)
            else
              (let base64Image = imageParts ! 1 in
               if base64Image = [] \<or> \<not> base64_test base64Image then
                 Some (failure 400 ''Image data is empty or not valid base64'' None)
               else None)))
      else None)"

text \<open>\<^verbatim>\<open>messageParts\<close> (lines 222-261).\<close>

definition messageParts :: "string \<Rightarrow> string option \<Rightarrow> Thrown + WirePart list" where
  "messageParts p img_opt =
     (if truthy img_opt then
        (let img = the img_opt in
         if \<not> startsWith img ''data:'' then Inl (Error ''Invalid image data URL format'')
         else
           (let imageParts = split_str CHR '','' img in
            if length imageParts < 2 then Inl (Error ''Invalid image data URL format'')
            else Inr [text_part p,
                      inline_part \<lparr>data = imageParts ! 1, mimeType = inferMimeType img\<rparr>]))
      else Inr [text_part p])"

text \<open>The inner \<^verbatim>\<open>catch\<close> (lines 266-273).\<close>

definition gemini_error :: "Thrown \<Rightarrow> Response" where
  "gemini_error e =
     failure 500 ''Gemini API error''
       (Some (case e of Error m \<Rightarrow> m | NonError v \<Rightarrow> ''Unknown error in AI processing''))"

text \<open>The variables the scan of the response's parts assigns (lines 277-279).\<close>

record Scan =
  textResponse :: "string option"
  imageData :: "string option"
  scanMimeType :: string

definition scan_init :: Scan where
  "scan_init = \<lparr>textResponse = None, imageData = None, scanMimeType = ''image/png''\<rparr>"

text \<open>The body of the loop over the parts (lines 286-305).\<close>

definition scan_part :: "Scan \<Rightarrow> WirePart \<Rightarrow> Scan" where
  "scan_part st part =
     (case wp_inlineData part of
        Some d \<Rightarrow>
          st\<lparr>imageData := Some (data d),
             scanMimeType := (if mimeType d = [] then ''image/png'' else mimeType d)\<rparr>
      | None \<Rightarrow>
          if truthy (wp_text part) then st\<lparr>textResponse := wp_text part\<rparr> else st)"

text \<open>Decoding of the model's response (lines 275-327).\<close>

definition process_response :: "GenerateContentResponse \<Rightarrow> Thrown + Response" where
  "process_response resp =
     (case candidates resp of
        None \<Rightarrow> Inr (failure 500 ''No response from Gemini API'' None)
      | Some [] \<Rightarrow> Inr (failure 500 ''No response from Gemini API'' None)
      | Some (Malformed m # rest) \<Rightarrow> Inl (Error m)
      | Some (Candidate ps # rest) \<Rightarrow>
          (let st = foldl scan_part scan_init ps in
           if \<not> truthy (imageData st) then
             Inr (failure 500 ''No image data in Gemini response'' None)
           else
             Inr \<lparr>status = 200, r_success = True, r_error = None, r_details = None,
                  r_image = Some (''data:'' @ scanMimeType st @ '';base64,'' @ the (imageData st)),
                  r_description = textResponse st\<rparr>))"

text \<open>
  The body of the outer \<^verbatim>\<open>try\<close> (lines 109-327): the calls made to the model, and
  the response returned or the value thrown. \<open>key\<close> is \<^verbatim>\<open>GEMINI_API_KEY\<close>;
  \<open>requestData\<close> is \<open>None\<close> when the body of the request is not JSON.
\<close>

definition POST_try ::
  "string \<Rightarrow> ChatModel \<Rightarrow> Request option \<Rightarrow> Call list \<times> (Thrown + Response)" where
  "POST_try key m requestData =
     (if key = [] then ([], Inr (failure 500 ''GEMINI_API_KEY is not configured'' None))
      else
        (case requestData of
           None \<Rightarrow> ([], Inr (failure 400 ''Invalid JSON in request body'' None))
         | Some rq \<Rightarrow>
             (if \<not> truthy (prompt rq) then ([], Inr (failure 400 ''Prompt is required'' None))
              else
                (case validate_image (inputImage rq) of
                   Some r \<Rightarrow> ([], Inr r)
                 | None \<Rightarrow>
                     (let h = formattedHistory (history rq) in
                      (case startChat m h of
                         Some e \<Rightarrow> ([StartChat h], Inr (gemini_error e))
                       | None \<Rightarrow>
                           (case messageParts (the (prompt rq)) (inputImage rq) of
                              Inl e \<Rightarrow> ([StartChat h], Inr (gemini_error e))
                            | Inr msg \<Rightarrow>
                                (case sendMessage m h msg of
                                   Inl e \<Rightarrow>
                                     ([StartChat h, SendMessage h msg], Inr (gemini_error e))
                                 | Inr resp \<Rightarrow>
                                     ([StartChat h, SendMessage h msg],
                                      process_response resp)))))))))"

text \<open>The handler, with the outer \<^verbatim>\<open>catch\<close> (lines 328-338).\<close>

definition POST :: "string \<Rightarrow> ChatModel \<Rightarrow> Request option \<Rightarrow> Outcome" where
  "POST key m requestData =
     (case POST_try key m requestData of
        (cs, Inr r) \<Rightarrow> \<lparr>response = r, calls = cs\<rparr>
      | (cs, Inl e) \<Rightarrow>
          \<lparr>response =
             failure 500 ''Failed to generate image''
               (Some (case e of Error msg \<Rightarrow> msg | NonError v \<Rightarrow> v)),
           calls = cs\<rparr>)"

subsection \<open>Model stubs\<close>

text \<open>
  Models for the examples: one that replies with a text part and an image, one that
  replies with text only, and one whose \<^verbatim>\<open>sendMessage\<close> throws an
  \<^verbatim>\<open>Error\<close>.
\<close>

definition stub_model :: ChatModel where
  "stub_model =
     \<lparr>startChat = (\<lambda>h. None),
      sendMessage = (\<lambda>h msg. Inr \<lparr>candidates = Some [Candidate [text_part ''Here it is'',
         inline_part \<lparr>data = ''QUJD'', mimeType = ''image/png''\<rparr>]]\<rparr>)\<rparr>"

definition text_only_model :: ChatModel where
  "text_only_model =
     \<lparr>startChat = (\<lambda>h. None),
      sendMessage = (\<lambda>h msg. Inr \<lparr>candidates = Some [Candidate [text_part ''I cannot draw that'']]\<rparr>)\<rparr>"

definition failing_model :: ChatModel where
  "failing_model =
     \<lparr>startChat = (\<lambda>h. None),
      sendMessage = (\<lambda>h msg. Inl (Error ''fetch failed''))\<rparr>"

text \<open>A model whose \<^verbatim>\<open>sendMessage\<close> throws a string, not an \<^verbatim>\<open>Error\<close>.\<close>

definition string_throwing_model :: ChatModel where
  "string_throwing_model =
     \<lparr>startChat = (\<lambda>h. None),
      sendMessage = (\<lambda>h msg. Inl (NonError ''quota exceeded''))\<rparr>"

section \<open>Properties\<close>

subsection \<open>String primitives\<close>

lemma startsWith_iff: "startsWith s p \<longleftrightarrow> (\<exists>b. s = p @ b)"
  by (induction s p rule: startsWith.induct) auto

lemma includes_str_iff: "includes_str s p \<longleftrightarrow> (\<exists>a b. s = a @ p @ b)"
proof (induction s)
  case Nil
  then show ?case by auto
next
  case (Cons c cs)
  show ?case
  proof
    assume "includes_str (c # cs) p"
    then consider "startsWith (c # cs) p" | "includes_str cs p" by auto
    then show "\<exists>a b. c # cs = a @ p @ b"
    proof cases
      case 1
      then obtain b where "c # cs = p @ b" by (auto simp: startsWith_iff)
      then have "c # cs = [] @ p @ b" by simp
      then show ?thesis by blast
    next
      case 2
      then obtain a b where "cs = a @ p @ b" using Cons.IH by auto
      then have "c # cs = (c # a) @ p @ b" by simp
      then show ?thesis by blast
    qed
  next
    assume "\<exists>a b. c # cs = a @ p @ b"
    then obtain a b where ab: "c # cs = a @ p @ b" by auto
    show "includes_str (c # cs) p"
    proof (cases a)
      case Nil
      with ab have "startsWith (c # cs) p" by (auto simp: startsWith_iff)
      then show ?thesis by simp
    next
      case (Cons x xs)
      with ab have "cs = xs @ p @ b" by simp
      then have "includes_str cs p" using Cons.IH by auto
      then show ?thesis by simp
    qed
  qed
qed

lemma split_str_not_Nil: "split_str sep s \<noteq> []"
  by (induction s) (auto split: list.splits)

lemma split_str_no_sep: "sep \<notin> set s \<Longrightarrow> split_str sep s = [s]"
  by (induction s) auto

lemma split_str_append_sep:
  "sep \<notin> set a \<Longrightarrow> split_str sep (a @ sep # b) = a # split_str sep b"
  by (induction a) auto

lemma split_str_length: "length (split_str sep s) = Suc (length (filter (\<lambda>c. c = sep) s))"
  by (induction s) (auto split: list.splits simp: split_str_not_Nil)

lemma split_str_decomp:
  "sep \<in> set s \<Longrightarrow> s = takeWhile (\<lambda>c. c \<noteq> sep) s @ sep # tl (dropWhile (\<lambda>c. c \<noteq> sep) s)"
  by (induction s) auto

lemma split_str_hd: "hd (split_str sep s) = takeWhile (\<lambda>c. c \<noteq> sep) s"
  by (induction s) (auto split: list.splits simp: split_str_not_Nil)

subsection \<open>History codec\<close>

lemma keys_length_text_part: "keys_length (text_part s) = 1"
  by (simp add: keys_length_def text_part_def)

lemma keys_length_inline_part: "keys_length (inline_part d) = 1"
  by (simp add: keys_length_def inline_part_def)

lemma keys_length_format_part: "keys_length (format_part r p) = 1"
  by (simp add: format_part_def Let_def keys_length_text_part keys_length_inline_part)

lemma format_part_shape:
  "(\<exists>t. format_part r p = text_part t) \<or> (\<exists>d. format_part r p = inline_part d)"
  unfolding format_part_def Let_def by (simp split: if_splits) blast

lemma f_parts_format_item: "f_parts (format_item item) = map (format_part (role item)) (parts item)"
proof -
  have "filter (\<lambda>part. keys_length part > 0) (map (format_part r) ps) = map (format_part r) ps"
    for r ps
    by (induction ps) (simp_all add: keys_length_format_part)
  then show ?thesis by (simp add: format_item_def)
qed

lemma f_role_format_item: "f_role (format_item item) = role item"
  by (simp add: format_item_def)

lemma formattedHistory_Some:
  "formattedHistory (Some h) = map format_item (filter (\<lambda>item. parts item \<noteq> []) h)"
proof -
  have "filter (\<lambda>item. length (f_parts item) > 0) (map format_item h)
        = map format_item (filter (\<lambda>item. parts item \<noteq> []) h)"
    by (induction h) (simp_all add: f_parts_format_item)
  then show ?thesis by (cases h) (simp_all add: formattedHistory_def)
qed

lemma formattedHistory_append:
  "formattedHistory (Some (pre @ post)) = formattedHistory (Some pre) @ formattedHistory (Some post)"
  by (simp add: formattedHistory_Some)

lemma formattedHistory_Cons_kept:
  "parts item \<noteq> [] \<Longrightarrow>
   formattedHistory (Some (item # post)) = format_item item # formattedHistory (Some post)"
  by (simp add: formattedHistory_Some)

text \<open>
  Claim C9. For every history, encoding maps each part of each turn to exactly one wire
  part, a text part or an inline-data part; every wire part produced has exactly one key,
  so the filter on \<^verbatim>\<open>Object.keys(part).length > 0\<close> keeps all of them and a
  formatted turn has as many parts as its source; the outer filter drops exactly the turns
  whose source parts are empty. Hence the encoded history is the image of the turns with
  non-empty parts, in order, with their roles and part counts.
\<close>

theorem formattedHistory_keeps_nonempty_turns:
  "((\<exists>t. format_part r p = text_part t) \<or> (\<exists>d. format_part r p = inline_part d)) \<and>
   keys_length (format_part r p) = 1 \<and>
   f_role (format_item item) = role item \<and>
   f_parts (format_item item) = map (format_part (role item)) (parts item) \<and>
   formattedHistory (Some h) = map format_item (filter (\<lambda>item. parts item \<noteq> []) h) \<and>
   length (formattedHistory (Some h)) = length (filter (\<lambda>item. parts item \<noteq> []) h) \<and>
   map (\<lambda>w. length (f_parts w)) (formattedHistory (Some h))
     = map (\<lambda>item. length (parts item)) (filter (\<lambda>item. parts item \<noteq> []) h)"
proof -
  have "map (\<lambda>w. length (f_parts w)) (formattedHistory (Some h))
     = map (\<lambda>item. length (parts item)) (filter (\<lambda>item. parts item \<noteq> []) h)"
    by (simp add: formattedHistory_Some f_parts_format_item o_def)
  then show ?thesis
    using format_part_shape [of r p]
    by (simp add: keys_length_format_part f_role_format_item f_parts_format_item
        formattedHistory_Some)
qed

theorem formattedHistory_keeps_nonempty_turns_witness:
  "map (\<lambda>w. length (f_parts w))
     (formattedHistory
        (Some [\<lparr>role = User,
                parts = [\<lparr>part_text = Some ''hi'', part_image = None\<rparr>,
                         \<lparr>part_text = None, part_image = Some ''data:image/png;base64,QUJD''\<rparr>]\<rparr>,
               \<lparr>role = Model, parts = []\<rparr>]))
   = [2]"
  using formattedHistory_keeps_nonempty_turns [of User "\<lparr>part_text = Some ''hi'', part_image = None\<rparr>"
      "\<lparr>role = Model, parts = []\<rparr>"
      "[\<lparr>role = User,
         parts = [\<lparr>part_text = Some ''hi'', part_image = None\<rparr>,
                  \<lparr>part_text = None, part_image = Some ''data:image/png;base64,QUJD''\<rparr>]\<rparr>,
        \<lparr>role = Model, parts = []\<rparr>]"]
  by (simp add: f_parts_format_item)

lemma format_part_no_comma:
  assumes "\<not> truthy (part_text p)" and "part_image p = Some u" and "CHR '','' \<notin> set u"
  shows "format_part r p = text_part []"
  using assms by (simp add: format_part_def Let_def split_str_no_sep)

text \<open>
  Claim C10. A part of a user turn with no non-empty text, whose image is a string without
  a comma, is encoded as the empty text part \<^verbatim>\<open>{ text: "" }\<close> (no inline data, no
  error), and that part is still there, at its place in its turn, in the encoded history.
\<close>

theorem user_image_without_comma_survives:
  assumes "\<not> truthy (part_text p)" and "part_image p = Some u" and "CHR '','' \<notin> set u"
    and "role item = User" and "parts item = ps @ p # qs"
  shows "format_part User p = text_part [] \<and>
         formattedHistory (Some (pre @ item # post)) =
           formattedHistory (Some pre) @
           \<lparr>f_role = User,
            f_parts = map (format_part User) ps @ text_part [] # map (format_part User) qs\<rparr> #
           formattedHistory (Some post)"
proof -
  have fp: "format_part User p = text_part []"
    using assms(1-3) by (rule format_part_no_comma)
  have "format_item item =
          \<lparr>f_role = User,
           f_parts = map (format_part User) ps @ text_part [] # map (format_part User) qs\<rparr>"
    using assms(4,5) fp f_parts_format_item [of item] f_role_format_item [of item]
    by (cases "format_item item") simp
  moreover have "parts item \<noteq> []" using assms(5) by simp
  ultimately show ?thesis
    using fp by (simp add: formattedHistory_append formattedHistory_Cons_kept)
qed

theorem user_image_without_comma_survives_witness:
  "formattedHistory
     (Some [\<lparr>role = User, parts = [\<lparr>part_text = None, part_image = Some ''data:image/png''\<rparr>]\<rparr>])
   = [\<lparr>f_role = User, f_parts = [text_part []]\<rparr>]"
  using user_image_without_comma_survives [of "\<lparr>part_text = None, part_image = Some ''data:image/png''\<rparr>"
      "''data:image/png''"
      "\<lparr>role = User, parts = [\<lparr>part_text = None, part_image = Some ''data:image/png''\<rparr>]\<rparr>"
      "[]" "[]" "[]" "[]"]
  by (simp add: formattedHistory_def)

lemma format_part_model_no_text:
  "\<not> truthy (part_text p) \<Longrightarrow> format_part Model p = text_part []"
  by (simp add: format_part_def)

text \<open>
  What the code does with a model turn whose parts hold an image and no non-empty text:
  each part becomes the placeholder \<^verbatim>\<open>{ text: "" }\<close> (never inline data). The
  placeholder has one key, so the filter commented \<^verbatim>\<open>Remove empty parts\<close> (line 211),
  which tests the number of keys, lets it through; the formatted turn is then not empty and
  the filter commented \<^verbatim>\<open>Remove items with no parts\<close> (line 214) keeps the turn.
\<close>

theorem model_image_turn_kept:
  assumes "role item = Model"
    and "\<forall>p \<in> set (parts item). \<not> truthy (part_text p)"
    and "\<exists>p \<in> set (parts item). truthy (part_image p)"
  shows "format_item item =
           \<lparr>f_role = Model, f_parts = replicate (length (parts item)) (text_part [])\<rparr> \<and>
         (\<forall>w \<in> set (f_parts (format_item item)). keys_length w = 1) \<and>
         f_parts (format_item item) \<noteq> [] \<and>
         formattedHistory (Some (pre @ item # post)) =
           formattedHistory (Some pre) @ format_item item # formattedHistory (Some post)"
proof -
  have "map (format_part Model) ps = replicate (length ps) (text_part [])"
    if "\<forall>p \<in> set ps. \<not> truthy (part_text p)" for ps
    using that by (induction ps) (simp_all add: format_part_model_no_text)
  then have fp: "f_parts (format_item item) = replicate (length (parts item)) (text_part [])"
    using assms(1,2) by (simp add: f_parts_format_item)
  then have fi: "format_item item =
           \<lparr>f_role = Model, f_parts = replicate (length (parts item)) (text_part [])\<rparr>"
    using assms(1) f_role_format_item [of item] by (cases "format_item item") simp
  have ne: "parts item \<noteq> []" using assms(3) by auto
  have keys: "\<forall>w \<in> set (f_parts (format_item item)). keys_length w = 1"
    by (auto simp: f_parts_format_item keys_length_format_part)
  show ?thesis
    using fi ne keys fp
    by (simp add: formattedHistory_append formattedHistory_Cons_kept)
qed

theorem model_image_turn_kept_witness:
  "formattedHistory
     (Some [\<lparr>role = Model,
             parts = [\<lparr>part_text = None, part_image = Some ''data:image/png;base64,AAAA''\<rparr>,
                      \<lparr>part_text = Some [], part_image = None\<rparr>]\<rparr>])
   = [\<lparr>f_role = Model, f_parts = [text_part [], text_part []]\<rparr>]"
  using model_image_turn_kept [of "\<lparr>role = Model,
             parts = [\<lparr>part_text = None, part_image = Some ''data:image/png;base64,AAAA''\<rparr>,
                      \<lparr>part_text = Some [], part_image = None\<rparr>]\<rparr>" "[]" "[]"]
  by (simp add: formattedHistory_def)

text \<open>
  Claim C1. A model turn with an image part and no text is to be encoded as an empty wire
  turn and dropped from the encoded history. The code attempts this with its two filters
  and misses: on the history of one model turn holding one image part it returns one wire
  turn with the part \<^verbatim>\<open>{ text: "" }\<close>, where the claim gives the empty history.
\<close>

theorem model_image_turn_not_dropped:
  "formattedHistory
     (Some [\<lparr>role = Model,
             parts = [\<lparr>part_text = None, part_image = Some ''data:image/png;base64,AAAA''\<rparr>]\<rparr>])
   = [\<lparr>f_role = Model, f_parts = [\<lparr>wp_text = Some [], wp_inlineData = None\<rparr>]\<rparr>]"
  by (simp add: formattedHistory_def format_item_def format_part_def keys_length_def text_part_def)

subsection \<open>Splitting and mime inference\<close>

lemma split_str_nth0: "split_str sep s ! 0 = takeWhile (\<lambda>c. c \<noteq> sep) s"
  using split_str_hd [of sep s] split_str_not_Nil [of sep s]
  by (simp add: hd_conv_nth)

lemma split_str_nth1:
  assumes "sep \<in> set s"
  shows "split_str sep s ! 1 = takeWhile (\<lambda>c. c \<noteq> sep) (tl (dropWhile (\<lambda>c. c \<noteq> sep) s))"
proof -
  let ?a = "takeWhile (\<lambda>c. c \<noteq> sep) s"
  let ?b = "tl (dropWhile (\<lambda>c. c \<noteq> sep) s)"
  have "sep \<notin> set ?a" by (auto dest: set_takeWhileD)
  then have "split_str sep (?a @ sep # ?b) = ?a # split_str sep ?b"
    by (rule split_str_append_sep)
  then have "split_str sep s = ?a # split_str sep ?b"
    using split_str_decomp [OF assms] by simp
  then show ?thesis by (simp add: split_str_nth0)
qed

lemma split_str_length_lt2: "length (split_str sep s) < 2 \<longleftrightarrow> sep \<notin> set s"
  by (auto simp: split_str_length filter_empty_conv)

lemma split_str_length_gt1: "length (split_str sep s) > 1 \<longleftrightarrow> sep \<in> set s"
  by (auto simp: split_str_length filter_empty_conv)

lemma one_sep_rest:
  "length (filter (\<lambda>c. c = sep) s) = 1 \<Longrightarrow> sep \<notin> set (tl (dropWhile (\<lambda>c. c \<noteq> sep) s))"
  by (induction s) (auto simp: filter_empty_conv split: if_splits)

lemma includes_png_header:
  "includes_str (''data:image/png;base64,'' @ P) ''image/png''"
  by simp

lemma includes_jpeg_header:
  "includes_str (''data:image/jpeg;base64,'' @ P) ''image/png'' = includes_str P ''image/png''"
  by simp

lemma split_png_header:
  "split_str CHR '','' (''data:image/png;base64,'' @ P) = ''data:image/png;base64'' # split_str CHR '','' P"
  by simp

lemma split_jpeg_header:
  "split_str CHR '','' (''data:image/jpeg;base64,'' @ P) = ''data:image/jpeg;base64'' # split_str CHR '','' P"
  by simp

lemma inferMimeType_iff:
  "inferMimeType url = ''image/png'' \<longleftrightarrow> (\<exists>a b. url = a @ ''image/png'' @ b)"
  by (simp add: inferMimeType_def includes_str_iff)

lemma inferMimeType_cases:
  "inferMimeType url = ''image/png'' \<or> inferMimeType url = ''image/jpeg''"
  by (simp add: inferMimeType_def)

lemma format_part_user_image:
  assumes "\<not> truthy (part_text part)" and "part_image part = Some url" and "CHR '','' \<in> set url"
  shows "format_part User part =
           inline_part \<lparr>data = takeWhile (\<lambda>c. c \<noteq> CHR '','') (tl (dropWhile (\<lambda>c. c \<noteq> CHR '','') url)),
                        mimeType = inferMimeType url\<rparr>"
proof -
  have "url \<noteq> []" using assms(3) by auto
  then show ?thesis
    using assms split_str_length_gt1 [of "CHR '',''" url] split_str_nth1 [of "CHR '',''" url]
    by (simp add: format_part_def Let_def)
qed

lemma messageParts_image:
  assumes "startsWith url ''data:''" and "CHR '','' \<in> set url"
  shows "messageParts p (Some url) =
           Inr [text_part p,
                inline_part \<lparr>data = takeWhile (\<lambda>c. c \<noteq> CHR '','') (tl (dropWhile (\<lambda>c. c \<noteq> CHR '','') url)),
                             mimeType = inferMimeType url\<rparr>]"
proof -
  have "url \<noteq> []" using assms(2) by auto
  then show ?thesis
    using assms split_str_length_lt2 [of "CHR '',''" url] split_str_nth1 [of "CHR '',''" url]
    by (simp add: messageParts_def Let_def)
qed

lemma encode_png:
  assumes "url = ''data:image/png;base64,'' @ P"
  shows "inferMimeType url = ''image/png''" and "CHR '','' \<in> set url"
    and "startsWith url ''data:''" and "tl (dropWhile (\<lambda>c. c \<noteq> CHR '','') url) = P"
  unfolding assms inferMimeType_def by simp_all

lemma encode_jpeg:
  assumes "url = ''data:image/jpeg;base64,'' @ P" and "\<not> (\<exists>a b. P = a @ ''image/png'' @ b)"
  shows "inferMimeType url = ''image/jpeg''" and "CHR '','' \<in> set url"
    and "startsWith url ''data:''" and "tl (dropWhile (\<lambda>c. c \<noteq> CHR '','') url) = P"
proof -
  have "\<not> includes_str P ''image/png''"
    using assms(2) includes_str_iff [of P "''image/png''"] by blast
  then show "inferMimeType url = ''image/jpeg''"
    unfolding assms(1) inferMimeType_def by simp
  show "CHR '','' \<in> set url" and "startsWith url ''data:''"
    and "tl (dropWhile (\<lambda>c. c \<noteq> CHR '','') url) = P"
    unfolding assms(1) by simp_all
qed

lemma process_response_single_inline:
  assumes "d \<noteq> []" and "mt \<noteq> []"
  shows "process_response \<lparr>candidates = Some [Candidate [inline_part \<lparr>data = d, mimeType = mt\<rparr>]]\<rparr> =
           Inr \<lparr>status = 200, r_success = True, r_error = None, r_details = None,
                r_image = Some (''data:'' @ mt @ '';base64,'' @ d), r_description = None\<rparr>"
  using assms
  by (simp add: process_response_def scan_part_def scan_init_def inline_part_def)
text \<open>
  Claim C5, as amended. The mime type is inferred by a substring test on the whole data
  URL: it is \<^verbatim>\<open>image/png\<close> exactly when \<^verbatim>\<open>image/png\<close> occurs somewhere in
  the URL, and \<^verbatim>\<open>image/jpeg\<close> otherwise. Hence every URL
  \<^verbatim>\<open>data:image/png;base64,P\<close> is given \<^verbatim>\<open>image/png\<close>, and a URL
  \<^verbatim>\<open>data:image/jpeg;base64,P\<close> is given \<^verbatim>\<open>image/jpeg\<close> provided the payload
  \<open>P\<close> does not contain \<^verbatim>\<open>image/png\<close>; both in the encoding of an image part of a
  user turn of the history and in the image part of the current message.
\<close>

theorem mime_inference_by_substring:
  assumes "\<not> truthy (part_text part)" and "part_image part = Some url"
  shows "(inferMimeType url = ''image/png'' \<longleftrightarrow> (\<exists>a b. url = a @ ''image/png'' @ b)) \<and>
         (inferMimeType url = ''image/png'' \<or> inferMimeType url = ''image/jpeg'') \<and>
         (url = ''data:image/png;base64,'' @ P \<longrightarrow>
            format_part User part =
              inline_part \<lparr>data = takeWhile (\<lambda>c. c \<noteq> CHR '','') P, mimeType = ''image/png''\<rparr> \<and>
            messageParts p (Some url) =
              Inr [text_part p,
                   inline_part \<lparr>data = takeWhile (\<lambda>c. c \<noteq> CHR '','') P, mimeType = ''image/png''\<rparr>]) \<and>
         (url = ''data:image/jpeg;base64,'' @ P \<and> \<not> (\<exists>a b. P = a @ ''image/png'' @ b) \<longrightarrow>
            format_part User part =
              inline_part \<lparr>data = takeWhile (\<lambda>c. c \<noteq> CHR '','') P, mimeType = ''image/jpeg''\<rparr> \<and>
            messageParts p (Some url) =
              Inr [text_part p,
                   inline_part \<lparr>data = takeWhile (\<lambda>c. c \<noteq> CHR '','') P, mimeType = ''image/jpeg''\<rparr>])"
proof (intro conjI impI)
  show "inferMimeType url = ''image/png'' \<longleftrightarrow> (\<exists>a b. url = a @ ''image/png'' @ b)"
    by (rule inferMimeType_iff)
  show "inferMimeType url = ''image/png'' \<or> inferMimeType url = ''image/jpeg''"
    by (rule inferMimeType_cases)
next
  assume u: "url = ''data:image/png;base64,'' @ P"
  have m: "inferMimeType url = ''image/png''"
    unfolding u inferMimeType_def by simp
  have c: "CHR '','' \<in> set url" and s: "startsWith url ''data:''"
    unfolding u by simp_all
  have t: "tl (dropWhile (\<lambda>c. c \<noteq> CHR '','') url) = P"
    unfolding u by simp
  show "format_part User part =
          inline_part \<lparr>data = takeWhile (\<lambda>c. c \<noteq> CHR '','') P, mimeType = ''image/png''\<rparr>"
    using format_part_user_image [OF assms c] m t by simp
  show "messageParts p (Some url) =
          Inr [text_part p,
               inline_part \<lparr>data = takeWhile (\<lambda>c. c \<noteq> CHR '','') P, mimeType = ''image/png''\<rparr>]"
    using messageParts_image [OF s c, of p] m t by simp
next
  assume h: "url = ''data:image/jpeg;base64,'' @ P \<and> \<not> (\<exists>a b. P = a @ ''image/png'' @ b)"
  then have u: "url = ''data:image/jpeg;base64,'' @ P" and n: "\<not> includes_str P ''image/png''"
    by (simp_all add: includes_str_iff)
  have m: "inferMimeType url = ''image/jpeg''"
    unfolding u inferMimeType_def using n by simp
  have c: "CHR '','' \<in> set url" and s: "startsWith url ''data:''"
    unfolding u by simp_all
  have t: "tl (dropWhile (\<lambda>c. c \<noteq> CHR '','') url) = P"
    unfolding u by simp
  show "format_part User part =
          inline_part \<lparr>data = takeWhile (\<lambda>c. c \<noteq> CHR '','') P, mimeType = ''image/jpeg''\<rparr>"
    using format_part_user_image [OF assms c] m t by simp
  show "messageParts p (Some url) =
          Inr [text_part p,
               inline_part \<lparr>data = takeWhile (\<lambda>c. c \<noteq> CHR '','') P, mimeType = ''image/jpeg''\<rparr>]"
    using messageParts_image [OF s c, of p] m t by simp
qed

theorem mime_inference_by_substring_witness:
  "format_part User \<lparr>part_text = None, part_image = Some ''data:image/jpeg;base64,QUJD''\<rparr> =
     inline_part \<lparr>data = ''QUJD'', mimeType = ''image/jpeg''\<rparr> \<and>
   messageParts ''a cat'' (Some ''data:image/png;base64,QUJD'') =
     Inr [text_part ''a cat'', inline_part \<lparr>data = ''QUJD'', mimeType = ''image/png''\<rparr>]"
proof -
  have "\<not> includes_str ''QUJD'' ''image/png''" by simp
  then have h: "\<not> (\<exists>a b. ''QUJD'' = a @ ''image/png'' @ b)"
    by (simp only: includes_str_iff not_False_eq_True)
  have t: "\<not> truthy None" by simp
  from mime_inference_by_substring [of "\<lparr>part_text = None, part_image = Some ''data:image/jpeg;base64,QUJD''\<rparr>"
      "''data:image/jpeg;base64,QUJD''" "''QUJD''" "''a cat''"] h
  have 1: "format_part User \<lparr>part_text = None, part_image = Some ''data:image/jpeg;base64,QUJD''\<rparr> =
     inline_part \<lparr>data = ''QUJD'', mimeType = ''image/jpeg''\<rparr>"
    by simp
  from mime_inference_by_substring [of "\<lparr>part_text = None, part_image = Some ''data:image/png;base64,QUJD''\<rparr>"
      "''data:image/png;base64,QUJD''" "''QUJD''" "''a cat''"]
  have 2: "messageParts ''a cat'' (Some ''data:image/png;base64,QUJD'') =
     Inr [text_part ''a cat'', inline_part \<lparr>data = ''QUJD'', mimeType = ''image/png''\<rparr>]"
    by simp
  from 1 2 show ?thesis by (rule conjI)
qed

text \<open>
  Claim C5, as stated, fails: the characters of \<^verbatim>\<open>image/png\<close> all belong to the
  base64 alphabet, so a JPEG data URL whose payload contains them passes the validation and
  is given the mime type \<^verbatim>\<open>image/png\<close>, in the current message and in the history.
\<close>

theorem jpeg_payload_with_png_marker:
  "validate_image (Some ''data:image/jpeg;base64,image/pngAAA'') = None \<and>
   messageParts ''p'' (Some ''data:image/jpeg;base64,image/pngAAA'') =
     Inr [text_part ''p'', inline_part \<lparr>data = ''image/pngAAA'', mimeType = ''image/png''\<rparr>] \<and>
   format_part User \<lparr>part_text = None, part_image = Some ''data:image/jpeg;base64,image/pngAAA''\<rparr> =
     inline_part \<lparr>data = ''image/pngAAA'', mimeType = ''image/png''\<rparr>"
  by (simp add: validate_image_def messageParts_def format_part_def inferMimeType_def Let_def
      base64_test_def is_space_def is_base64_char_def)

text \<open>
  Claim C6, as amended. For the mime type \<^verbatim>\<open>image/png\<close> and every payload that is
  not empty and has no comma, and for the mime type \<^verbatim>\<open>image/jpeg\<close> and every such
  payload that does not contain \<^verbatim>\<open>image/png\<close>, encoding the data URL
  \<^verbatim>\<open>data:<mime>;base64,<payload>\<close> into an inline-data part (as a part of a user turn
  of the history, or as the image of the current message) and decoding a response that
  holds this single part gives a success whose image is the same data URL.
\<close>

theorem data_url_round_trip:
  assumes "mime = ''image/png'' \<or>
           (mime = ''image/jpeg'' \<and> \<not> (\<exists>a b. payload = a @ ''image/png'' @ b))"
    and "payload \<noteq> []" and "CHR '','' \<notin> set payload"
    and "\<not> truthy (part_text part)"
    and "part_image part = Some (''data:'' @ mime @ '';base64,'' @ payload)"
  shows "process_response \<lparr>candidates = Some [Candidate [format_part User part]]\<rparr> =
           Inr \<lparr>status = 200, r_success = True, r_error = None, r_details = None,
                r_image = Some (''data:'' @ mime @ '';base64,'' @ payload),
                r_description = None\<rparr> \<and>
         (\<exists>w. messageParts p (Some (''data:'' @ mime @ '';base64,'' @ payload)) =
                Inr [text_part p, w] \<and>
              process_response \<lparr>candidates = Some [Candidate [w]]\<rparr> =
                Inr \<lparr>status = 200, r_success = True, r_error = None, r_details = None,
                     r_image = Some (''data:'' @ mime @ '';base64,'' @ payload),
                     r_description = None\<rparr>)"
proof -
  let ?url = "''data:'' @ mime @ '';base64,'' @ payload"
  have tw: "takeWhile (\<lambda>c. c \<noteq> CHR '','') payload = payload"
    using assms(3) by (auto simp: takeWhile_eq_all_conv)
  have facts: "inferMimeType ?url = mime \<and> CHR '','' \<in> set ?url \<and> startsWith ?url ''data:'' \<and>
               tl (dropWhile (\<lambda>c. c \<noteq> CHR '','') ?url) = payload \<and> mime \<noteq> []"
    using assms(1)
  proof
    assume m: "mime = ''image/png''"
    then have "?url = ''data:image/png;base64,'' @ payload" by simp
    from encode_png [OF this] m show ?thesis by simp
  next
    assume m: "mime = ''image/jpeg'' \<and> \<not> (\<exists>a b. payload = a @ ''image/png'' @ b)"
    then have "?url = ''data:image/jpeg;base64,'' @ payload" by simp
    from encode_jpeg [OF this] m show ?thesis by simp
  qed
  then have m: "inferMimeType ?url = mime" and c: "CHR '','' \<in> set ?url"
    and s: "startsWith ?url ''data:''"
    and t: "tl (dropWhile (\<lambda>c. c \<noteq> CHR '','') ?url) = payload" and ne: "mime \<noteq> []"
    by blast+
  have fp: "format_part User part = inline_part \<lparr>data = payload, mimeType = mime\<rparr>"
    using format_part_user_image [OF assms(4,5) c] by (simp only: m t tw)
  have mp: "messageParts p (Some ?url) =
              Inr [text_part p, inline_part \<lparr>data = payload, mimeType = mime\<rparr>]"
    using messageParts_image [OF s c, of p] by (simp only: m t tw)
  have pr: "process_response
              \<lparr>candidates = Some [Candidate [inline_part \<lparr>data = payload, mimeType = mime\<rparr>]]\<rparr> =
            Inr \<lparr>status = 200, r_success = True, r_error = None, r_details = None,
                 r_image = Some ?url, r_description = None\<rparr>"
    using process_response_single_inline [OF assms(2) ne] by simp
  show ?thesis
    using fp mp pr by simp
qed

theorem data_url_round_trip_witness:
  "process_response
     \<lparr>candidates = Some [Candidate [format_part User
        \<lparr>part_text = None, part_image = Some ''data:image/png;base64,QUJD''\<rparr>]]\<rparr> =
   Inr \<lparr>status = 200, r_success = True, r_error = None, r_details = None,
        r_image = Some ''data:image/png;base64,QUJD'', r_description = None\<rparr>"
  using data_url_round_trip [of "''image/png''" "''QUJD''"
      "\<lparr>part_text = None, part_image = Some ''data:image/png;base64,QUJD''\<rparr>" "''a cat''"]
  by simp

text \<open>
  Claim C6, as stated, fails: the encoder knows two mime types only, so the round trip of
  a GIF data URL comes back labelled \<^verbatim>\<open>image/jpeg\<close>.
\<close>

theorem gif_round_trip_relabelled:
  "process_response
     \<lparr>candidates = Some [Candidate [format_part User
        \<lparr>part_text = None, part_image = Some ''data:image/gif;base64,QUJD''\<rparr>]]\<rparr> =
   Inr \<lparr>status = 200, r_success = True, r_error = None, r_details = None,
        r_image = Some ''data:image/jpeg;base64,QUJD'', r_description = None\<rparr>"
  by (simp add: process_response_def scan_part_def scan_init_def inline_part_def
      format_part_def inferMimeType_def Let_def)

subsection \<open>The current message\<close>

lemma validate_image_None_iff:
  "validate_image io = None \<longleftrightarrow>
     (\<not> truthy io \<or>
      (startsWith (the io) ''data:'' \<and> CHR '','' \<in> set (the io) \<and>
       split_str CHR '','' (the io) ! 1 \<noteq> [] \<and> base64_test (split_str CHR '','' (the io) ! 1)))"
  using split_str_length_lt2 [of "CHR '',''" "the io"]
  by (simp add: validate_image_def Let_def failure_def)

lemma messageParts_valid:
  assumes "validate_image io = None"
  shows "messageParts p io =
           (if truthy io then
              Inr [text_part p,
                   inline_part \<lparr>data = takeWhile (\<lambda>c. c \<noteq> CHR '','')
                                         (tl (dropWhile (\<lambda>c. c \<noteq> CHR '','') (the io))),
                                mimeType = inferMimeType (the io)\<rparr>]
            else Inr [text_part p])"
proof (cases "truthy io")
  case False
  then show ?thesis by (simp add: messageParts_def)
next
  case True
  then obtain url where io: "io = Some url" by (cases io) auto
  with assms True have "startsWith url ''data:''" and "CHR '','' \<in> set url"
    by (simp_all add: validate_image_None_iff)
  from messageParts_image [OF this, of p] True io show ?thesis by simp
qed

lemma formattedHistory_empty:
  "formattedHistory None = []" "formattedHistory (Some []) = []"
  by (simp_all add: formattedHistory_def)

lemma POST_valid:
  assumes "key \<noteq> []" and "truthy (prompt rq)" and "validate_image (inputImage rq) = None"
    and "startChat m (formattedHistory (history rq)) = None"
    and "messageParts (the (prompt rq)) (inputImage rq) = Inr msg"
  shows "POST_try key m (Some rq) =
           ([StartChat (formattedHistory (history rq)), SendMessage (formattedHistory (history rq)) msg],
            (case sendMessage m (formattedHistory (history rq)) msg of
               Inl e \<Rightarrow> Inr (gemini_error e)
             | Inr resp \<Rightarrow> process_response resp))"
  using assms by (simp add: POST_try_def Let_def split: sum.splits)

lemma calls_POST: "calls (POST key m rd) = fst (POST_try key m rd)"
  by (simp add: POST_def split: prod.splits sum.splits)

text \<open>
  Claim C7, as amended. For every request that passes validation (key configured, prompt
  not empty, image absent or valid), building the current message does not throw; its
  first part is the text part of the prompt, unchanged; when the session opens, the
  handler sends exactly this message with the encoded history. When an image is supplied
  the message is the prompt part followed by exactly one inline-data part, whose data is
  the segment of the data URL between its first comma and its next comma (or the end), that
  is the whole substring after the first comma when the URL has exactly one comma; without
  an image the message is the prompt part alone. When the history is absent or empty the
  encoded history is empty.
\<close>

theorem current_turn_message:
  assumes "key \<noteq> []" and "prompt rq = Some p" and "p \<noteq> []"
    and "validate_image (inputImage rq) = None"
  shows "(\<exists>msg. messageParts p (inputImage rq) = Inr msg \<and> hd msg = text_part p \<and>
            (startChat m (formattedHistory (history rq)) = None \<longrightarrow>
               calls (POST key m (Some rq)) =
                 [StartChat (formattedHistory (history rq)),
                  SendMessage (formattedHistory (history rq)) msg]) \<and>
            (\<forall>url. inputImage rq = Some url \<and> url \<noteq> [] \<longrightarrow>
               msg = [text_part p,
                      inline_part
                        \<lparr>data = takeWhile (\<lambda>c. c \<noteq> CHR '','')
                                  (tl (dropWhile (\<lambda>c. c \<noteq> CHR '','') url)),
                         mimeType = inferMimeType url\<rparr>] \<and>
               (length (filter (\<lambda>c. c = CHR '','') url) = 1 \<longrightarrow>
                  msg = [text_part p,
                         inline_part
                           \<lparr>data = tl (dropWhile (\<lambda>c. c \<noteq> CHR '','') url),
                            mimeType = inferMimeType url\<rparr>])) \<and>
            (\<not> truthy (inputImage rq) \<longrightarrow> msg = [text_part p])) \<and>
         (history rq = None \<or> history rq = Some [] \<longrightarrow> formattedHistory (history rq) = [])"
proof -
  let ?h = "formattedHistory (history rq)"
  let ?seg = "\<lambda>url. takeWhile (\<lambda>c. c \<noteq> CHR '','') (tl (dropWhile (\<lambda>c. c \<noteq> CHR '','') url))"
  define msg where "msg =
    (if truthy (inputImage rq) then
       [text_part p,
        inline_part \<lparr>data = ?seg (the (inputImage rq)),
                     mimeType = inferMimeType (the (inputImage rq))\<rparr>]
     else [text_part p])"
  have c1: "messageParts p (inputImage rq) = Inr msg"
    unfolding msg_def using messageParts_valid [OF assms(4), of p] by simp
  have c2: "hd msg = text_part p"
    unfolding msg_def by simp
  have c3: "startChat m ?h = None \<longrightarrow>
            calls (POST key m (Some rq)) = [StartChat ?h, SendMessage ?h msg]"
  proof
    assume sc: "startChat m ?h = None"
    have "truthy (prompt rq)" and "messageParts (the (prompt rq)) (inputImage rq) = Inr msg"
      using assms(2,3) c1 by simp_all
    from POST_valid [OF assms(1) this(1) assms(4) sc this(2)]
    show "calls (POST key m (Some rq)) = [StartChat ?h, SendMessage ?h msg]"
      by (simp add: calls_POST)
  qed
  have one: "?seg url = tl (dropWhile (\<lambda>c. c \<noteq> CHR '','') url)"
    if "length (filter (\<lambda>c. c = CHR '','') url) = 1" for url
    using one_sep_rest [OF that] by (auto simp: takeWhile_eq_all_conv)
  have c4: "\<forall>url. inputImage rq = Some url \<and> url \<noteq> [] \<longrightarrow>
               msg = [text_part p,
                      inline_part
                        \<lparr>data = takeWhile (\<lambda>c. c \<noteq> CHR '','')
                                  (tl (dropWhile (\<lambda>c. c \<noteq> CHR '','') url)),
                         mimeType = inferMimeType url\<rparr>] \<and>
               (length (filter (\<lambda>c. c = CHR '','') url) = 1 \<longrightarrow>
                  msg = [text_part p,
                         inline_part
                           \<lparr>data = tl (dropWhile (\<lambda>c. c \<noteq> CHR '','') url),
                            mimeType = inferMimeType url\<rparr>])"
  proof (intro allI impI conjI)
    fix url
    assume u: "inputImage rq = Some url \<and> url \<noteq> []"
    then show g: "msg = [text_part p,
                      inline_part
                        \<lparr>data = takeWhile (\<lambda>c. c \<noteq> CHR '','')
                                  (tl (dropWhile (\<lambda>c. c \<noteq> CHR '','') url)),
                         mimeType = inferMimeType url\<rparr>]"
      unfolding msg_def by simp
    assume "length (filter (\<lambda>c. c = CHR '','') url) = 1"
    from one [OF this] g
    show "msg = [text_part p,
                 inline_part
                   \<lparr>data = tl (dropWhile (\<lambda>c. c \<noteq> CHR '','') url),
                    mimeType = inferMimeType url\<rparr>]"
      by (simp only:)
  qed
  have c5: "\<not> truthy (inputImage rq) \<longrightarrow> msg = [text_part p]"
    unfolding msg_def by simp
  have c6: "history rq = None \<or> history rq = Some [] \<longrightarrow> formattedHistory (history rq) = []"
    using formattedHistory_empty by auto
  from c1 c2 c3 c4 c5 have "\<exists>msg. messageParts p (inputImage rq) = Inr msg \<and> hd msg = text_part p \<and>
            (startChat m (formattedHistory (history rq)) = None \<longrightarrow>
               calls (POST key m (Some rq)) =
                 [StartChat (formattedHistory (history rq)),
                  SendMessage (formattedHistory (history rq)) msg]) \<and>
            (\<forall>url. inputImage rq = Some url \<and> url \<noteq> [] \<longrightarrow>
               msg = [text_part p,
                      inline_part
                        \<lparr>data = takeWhile (\<lambda>c. c \<noteq> CHR '','')
                                  (tl (dropWhile (\<lambda>c. c \<noteq> CHR '','') url)),
                         mimeType = inferMimeType url\<rparr>] \<and>
               (length (filter (\<lambda>c. c = CHR '','') url) = 1 \<longrightarrow>
                  msg = [text_part p,
                         inline_part
                           \<lparr>data = tl (dropWhile (\<lambda>c. c \<noteq> CHR '','') url),
                            mimeType = inferMimeType url\<rparr>])) \<and>
            (\<not> truthy (inputImage rq) \<longrightarrow> msg = [text_part p])"
    by (intro exI [of _ msg] conjI)
  from this c6 show ?thesis by (rule conjI)
qed

theorem current_turn_message_witness:
  "calls (POST ''key'' stub_model
     (Some \<lparr>prompt = Some ''make it blue'', inputImage = Some ''data:image/png;base64,QUJD'',
            history = Some []\<rparr>)) =
     [StartChat [],
      SendMessage [] [text_part ''make it blue'',
                      inline_part \<lparr>data = ''QUJD'', mimeType = ''image/png''\<rparr>]]"
proof -
  let ?rq = "\<lparr>prompt = Some ''make it blue'', inputImage = Some ''data:image/png;base64,QUJD'',
            history = Some []\<rparr>"
  have v: "validate_image (inputImage ?rq) = None"
    by (simp add: validate_image_def Let_def base64_test_def is_space_def is_base64_char_def)
  have k: "''key'' \<noteq> []" and p: "prompt ?rq = Some ''make it blue''" and n: "''make it blue'' \<noteq> []"
    by simp_all
  from current_turn_message [OF k p n v, of stub_model, THEN conjunct1]
  show ?thesis
    by (elim exE conjE) (simp add: stub_model_def formattedHistory_def inferMimeType_def)
qed

text \<open>
  Claim C7, as stated, fails: a data URL with a second comma passes the validation, which
  looks at the second segment only, and the data sent is that segment, not the substring
  after the first comma.
\<close>

theorem second_comma_cuts_payload:
  "validate_image (Some ''data:image/png;base64,AAAA,BBBB'') = None \<and>
   calls (POST ''key'' stub_model
     (Some \<lparr>prompt = Some ''p'', inputImage = Some ''data:image/png;base64,AAAA,BBBB'',
            history = None\<rparr>)) =
     [StartChat [],
      SendMessage [] [text_part ''p'', inline_part \<lparr>data = ''AAAA'', mimeType = ''image/png''\<rparr>]]"
  by (simp add: validate_image_def messageParts_def inferMimeType_def Let_def
      base64_test_def is_space_def is_base64_char_def POST_def POST_try_def stub_model_def
      formattedHistory_def process_response_def scan_part_def scan_init_def
      text_part_def inline_part_def)

subsection \<open>The shape of the handler's responses\<close>

lemma failure_sel:
  "status (failure st e d) = st" "r_success (failure st e d) = False"
  "r_error (failure st e d) = Some e" "r_details (failure st e d) = d"
  "r_image (failure st e d) = None" "r_description (failure st e d) = None"
  by (simp_all add: failure_def)

lemma validate_image_Some:
  "validate_image io = Some r \<Longrightarrow> \<exists>e. r = failure 400 e None"
  by (auto simp: validate_image_def Let_def split: if_splits)

lemma messageParts_valid_ex:
  "validate_image io = None \<Longrightarrow> \<exists>msg. messageParts p io = Inr msg"
  by (simp add: messageParts_valid)

lemma process_response_Inr:
  assumes "process_response resp = Inr r"
  shows "(\<exists>e. r = failure 500 e None) \<or>
         (r_success r \<and> status r = 200 \<and> r_image r \<noteq> None \<and> r_error r = None)"
  using assms
  by (auto simp: process_response_def Let_def split: option.splits list.splits Candidate.splits if_splits)

lemma POST_try_Inr:
  assumes "POST_try key m rd = (cs, Inr r)"
  shows "(\<exists>st e d. r = failure st e d \<and> (st = 400 \<or> st = 500)) \<or>
         (r_success r \<and> status r = 200 \<and> r_image r \<noteq> None \<and> r_error r = None)"
proof (cases "key = []")
  case True
  with assms show ?thesis by (auto simp: POST_try_def)
next
  case key: False
  show ?thesis
  proof (cases rd)
    case None
    with assms key show ?thesis by (auto simp: POST_try_def)
  next
    case (Some rq)
    show ?thesis
    proof (cases "truthy (prompt rq)")
      case False
      with assms key Some show ?thesis by (auto simp: POST_try_def)
    next
      case pr: True
      show ?thesis
      proof (cases "validate_image (inputImage rq)")
        case (Some v)
        with assms key \<open>rd = Some rq\<close> pr have "r = v" by (simp add: POST_try_def)
        with validate_image_Some [OF Some] show ?thesis by blast
      next
        case None
        let ?h = "formattedHistory (history rq)"
        show ?thesis
        proof (cases "startChat m ?h")
          case (Some e)
          with assms key \<open>rd = Some rq\<close> pr None have "r = gemini_error e"
            by (simp add: POST_try_def)
          then show ?thesis by (auto simp: gemini_error_def)
        next
          case sc: None
          obtain msg where msg: "messageParts (the (prompt rq)) (inputImage rq) = Inr msg"
            using messageParts_valid_ex [OF None] by blast
          note pv = POST_valid [OF key pr None sc msg]
          show ?thesis
          proof (cases "sendMessage m ?h msg")
            case (Inl e)
            with pv assms \<open>rd = Some rq\<close> have "r = gemini_error e" by simp
            then show ?thesis by (auto simp: gemini_error_def)
          next
            case (Inr resp)
            with pv assms \<open>rd = Some rq\<close> have "process_response resp = Inr r" by simp
            from process_response_Inr [OF this] show ?thesis by blast
          qed
        qed
      qed
    qed
  qed
qed

lemma response_POST:
  "response (POST key m rd) =
     (case snd (POST_try key m rd) of
        Inr r \<Rightarrow> r
      | Inl e \<Rightarrow> failure 500 ''Failed to generate image''
                  (Some (case e of Error msg \<Rightarrow> msg | NonError v \<Rightarrow> v)))"
  by (simp add: POST_def split: prod.splits sum.splits)

lemma POST_envelope:
  "(\<exists>st e d. response (POST key m rd) = failure st e d \<and> (st = 400 \<or> st = 500)) \<or>
   (r_success (response (POST key m rd)) \<and> status (response (POST key m rd)) = 200 \<and>
    r_image (response (POST key m rd)) \<noteq> None \<and> r_error (response (POST key m rd)) = None)"
proof (cases "snd (POST_try key m rd)")
  case (Inl e)
  then have "response (POST key m rd) =
      failure 500 ''Failed to generate image'' (Some (case e of Error msg \<Rightarrow> msg | NonError v \<Rightarrow> v))"
    by (simp add: response_POST)
  then show ?thesis by blast
next
  case (Inr r)
  then have "POST_try key m rd = (fst (POST_try key m rd), Inr r)"
    by (metis prod.collapse)
  from POST_try_Inr [OF this] Inr show ?thesis by (simp add: response_POST)
qed

subsection \<open>Validation\<close>

lemma POST_try_early:
  "key = [] \<Longrightarrow>
     POST_try key m rd = ([], Inr (failure 500 ''GEMINI_API_KEY is not configured'' None))"
  "key \<noteq> [] \<Longrightarrow>
     POST_try key m None = ([], Inr (failure 400 ''Invalid JSON in request body'' None))"
  "key \<noteq> [] \<Longrightarrow> \<not> truthy (prompt rq) \<Longrightarrow>
     POST_try key m (Some rq) = ([], Inr (failure 400 ''Prompt is required'' None))"
  "key \<noteq> [] \<Longrightarrow> truthy (prompt rq) \<Longrightarrow> validate_image (inputImage rq) = Some r \<Longrightarrow>
     POST_try key m (Some rq) = ([], Inr r)"
  by (simp_all add: POST_try_def)

lemma POST_of_try: "POST_try key m rd = (cs, Inr r) \<Longrightarrow> POST key m rd = \<lparr>response = r, calls = cs\<rparr>"
  by (simp add: POST_def)

lemma not_truthy_iff: "\<not> truthy so \<longleftrightarrow> so = None \<or> so = Some []"
  by (cases so) simp_all

text \<open>
  Claim C3, as amended. For every request whose prompt is absent or the empty string the
  handler makes no call to the external model and, when the key is configured, returns
  status 400 with the error \<^verbatim>\<open>Prompt is required\<close>. (The handler does not trim the
  prompt.)
\<close>

theorem empty_prompt_rejected:
  assumes "prompt rq = None \<or> prompt rq = Some []"
  shows "calls (POST key m (Some rq)) = [] \<and>
         (key \<noteq> [] \<longrightarrow>
            POST key m (Some rq) =
              \<lparr>response = failure 400 ''Prompt is required'' None, calls = []\<rparr>)"
proof -
  have nt: "\<not> truthy (prompt rq)" using assms by (simp add: not_truthy_iff)
  have "POST key m (Some rq) = \<lparr>response = failure 400 ''Prompt is required'' None, calls = []\<rparr>"
    if "key \<noteq> []"
    using POST_try_early(3) [OF that nt] by (rule POST_of_try)
  moreover have "calls (POST key m (Some rq)) = []"
  proof (cases "key = []")
    case True
    from POST_try_early(1) [OF this] show ?thesis by (simp add: calls_POST)
  next
    case False
    from POST_try_early(3) [OF this nt] show ?thesis by (simp add: calls_POST)
  qed
  ultimately show ?thesis by blast
qed

theorem empty_prompt_rejected_witness:
  "POST ''key'' stub_model (Some \<lparr>prompt = Some [], inputImage = None, history = None\<rparr>) =
     \<lparr>response = failure 400 ''Prompt is required'' None, calls = []\<rparr>"
  using empty_prompt_rejected [of "\<lparr>prompt = Some [], inputImage = None, history = None\<rparr>" "''key''" stub_model]
  by simp

text \<open>
  Claim C3, as stated, fails: a prompt of one space is not rejected; it is sent to the
  model and the handler returns the model's image with status 200.
\<close>

theorem whitespace_prompt_accepted:
  "POST ''key'' stub_model (Some \<lparr>prompt = Some '' '', inputImage = None, history = None\<rparr>) =
     \<lparr>response =
        \<lparr>status = 200, r_success = True, r_error = None, r_details = None,
         r_image = Some ''data:image/png;base64,QUJD'', r_description = Some ''Here it is''\<rparr>,
      calls = [StartChat [], SendMessage [] [text_part '' '']]\<rparr>"
  by (simp add: POST_def POST_try_def validate_image_def messageParts_def stub_model_def
      formattedHistory_def process_response_def scan_part_def scan_init_def
      text_part_def inline_part_def)

lemma base64_fail_iff:
  "(b = [] \<or> \<not> base64_test b) \<longleftrightarrow>
   (filter (\<lambda>c. \<not> is_space c) b = [] \<or>
    (\<exists>c \<in> set (filter (\<lambda>c. \<not> is_space c) b). \<not> is_base64_char c))"
  by (auto simp: base64_test_def Let_def list_all_iff)

lemma validate_image_cases:
  assumes "img \<noteq> []"
  shows "\<not> startsWith img ''data:'' \<Longrightarrow>
           validate_image (Some img) = Some (failure 400 ''Invalid image data URL format'' None)"
    and "startsWith img ''data:'' \<Longrightarrow> length (split_str CHR '','' img) < 2 \<Longrightarrow>
           validate_image (Some img) = Some (failure 400 ''Malformed image data URL'' None)"
    and "startsWith img ''data:'' \<Longrightarrow> \<not> length (split_str CHR '','' img) < 2 \<Longrightarrow>
         split_str CHR '','' img ! 1 = [] \<or> \<not> base64_test (split_str CHR '','' img ! 1) \<Longrightarrow>
           validate_image (Some img) =
             Some (failure 400 ''Image data is empty or not valid base64'' None)"
  using assms by (simp_all add: validate_image_def Let_def)

text \<open>
  Claim C4. For every request that reaches the validation of the image (key configured,
  prompt not empty) with an image that is a non-empty string, the checks are made in this
  order, each returning status 400 before any call to the external model: the image does
  not start with \<^verbatim>\<open>data:\<close> (invalid format); else splitting on the comma gives
  fewer than two segments (malformed data URL); else the second segment, whitespace
  removed, is empty or holds a character outside letters, digits, \<^verbatim>\<open>+\<close>,
  \<^verbatim>\<open>/\<close> and \<^verbatim>\<open>=\<close> (invalid base64).
\<close>

theorem image_validation_order:
  assumes "key \<noteq> []" and "truthy (prompt rq)" and "inputImage rq = Some img" and "img \<noteq> []"
  shows "(\<not> startsWith img ''data:'' \<longrightarrow>
            POST key m (Some rq) =
              \<lparr>response = failure 400 ''Invalid image data URL format'' None, calls = []\<rparr>) \<and>
         (startsWith img ''data:'' \<and> length (split_str CHR '','' img) < 2 \<longrightarrow>
            POST key m (Some rq) =
              \<lparr>response = failure 400 ''Malformed image data URL'' None, calls = []\<rparr>) \<and>
         (startsWith img ''data:'' \<and> \<not> length (split_str CHR '','' img) < 2 \<and>
          (filter (\<lambda>c. \<not> is_space c) (split_str CHR '','' img ! 1) = [] \<or>
           (\<exists>c \<in> set (filter (\<lambda>c. \<not> is_space c) (split_str CHR '','' img ! 1)).
              \<not> is_base64_char c)) \<longrightarrow>
            POST key m (Some rq) =
              \<lparr>response = failure 400 ''Image data is empty or not valid base64'' None,
               calls = []\<rparr>)"
proof -
  have post: "POST key m (Some rq) = \<lparr>response = r, calls = []\<rparr>"
    if "validate_image (Some img) = Some r" for r
    using POST_try_early(4) [OF assms(1,2), of r m] that assms(3) by (simp add: POST_of_try)
  show ?thesis
  proof (intro conjI impI)
    assume "\<not> startsWith img ''data:''"
    from validate_image_cases(1) [OF assms(4) this]
    show "POST key m (Some rq) =
            \<lparr>response = failure 400 ''Invalid image data URL format'' None, calls = []\<rparr>"
      by (rule post)
  next
    assume "startsWith img ''data:'' \<and> length (split_str CHR '','' img) < 2"
    then have "validate_image (Some img) = Some (failure 400 ''Malformed image data URL'' None)"
      using validate_image_cases(2) [OF assms(4)] by blast
    then show "POST key m (Some rq) =
            \<lparr>response = failure 400 ''Malformed image data URL'' None, calls = []\<rparr>"
      by (rule post)
  next
    assume h: "startsWith img ''data:'' \<and> \<not> length (split_str CHR '','' img) < 2 \<and>
          (filter (\<lambda>c. \<not> is_space c) (split_str CHR '','' img ! 1) = [] \<or>
           (\<exists>c \<in> set (filter (\<lambda>c. \<not> is_space c) (split_str CHR '','' img ! 1)).
              \<not> is_base64_char c))"
    then have "split_str CHR '','' img ! 1 = [] \<or> \<not> base64_test (split_str CHR '','' img ! 1)"
      by (simp only: base64_fail_iff)
    with h have "validate_image (Some img) =
             Some (failure 400 ''Image data is empty or not valid base64'' None)"
      using validate_image_cases(3) [OF assms(4)] by blast
    then show "POST key m (Some rq) =
            \<lparr>response = failure 400 ''Image data is empty or not valid base64'' None,
             calls = []\<rparr>"
      by (rule post)
  qed
qed

theorem image_validation_order_witness:
  "POST ''key'' stub_model
     (Some \<lparr>prompt = Some ''a cat'', inputImage = Some ''not-a-data-url'', history = None\<rparr>) =
     \<lparr>response = failure 400 ''Invalid image data URL format'' None, calls = []\<rparr> \<and>
   POST ''key'' stub_model
     (Some \<lparr>prompt = Some ''a cat'', inputImage = Some ''data:image/png;base64'', history = None\<rparr>) =
     \<lparr>response = failure 400 ''Malformed image data URL'' None, calls = []\<rparr> \<and>
   POST ''key'' stub_model
     (Some \<lparr>prompt = Some ''a cat'', inputImage = Some ''data:image/png;base64, @@'', history = None\<rparr>) =
     \<lparr>response = failure 400 ''Image data is empty or not valid base64'' None, calls = []\<rparr>"
  using
    image_validation_order [of "''key''"
      "\<lparr>prompt = Some ''a cat'', inputImage = Some ''not-a-data-url'', history = None\<rparr>"
      "''not-a-data-url''" stub_model]
    image_validation_order [of "''key''"
      "\<lparr>prompt = Some ''a cat'', inputImage = Some ''data:image/png;base64'', history = None\<rparr>"
      "''data:image/png;base64''" stub_model]
    image_validation_order [of "''key''"
      "\<lparr>prompt = Some ''a cat'', inputImage = Some ''data:image/png;base64, @@'', history = None\<rparr>"
      "''data:image/png;base64, @@''" stub_model]
  by (simp add: is_space_def is_base64_char_def)

subsection \<open>Upstream failures and decoding\<close>

lemma scan_no_inline:
  "\<forall>part \<in> set ps. wp_inlineData part = None \<Longrightarrow>
   imageData (foldl scan_part st ps) = imageData st"
  by (induction ps arbitrary: st) (simp_all add: scan_part_def)

lemma process_response_text_only:
  assumes "candidates resp = Some (Candidate ps # rest)"
    and "\<forall>part \<in> set ps. wp_inlineData part = None"
  shows "process_response resp = Inr (failure 500 ''No image data in Gemini response'' None)"
  using assms scan_no_inline [OF assms(2), of scan_init]
  by (simp add: process_response_def Let_def scan_init_def)

lemma process_response_no_inline:
  assumes "\<forall>ps rest. candidates resp = Some (Candidate ps # rest) \<longrightarrow>
             (\<forall>part \<in> set ps. wp_inlineData part = None)"
  shows "(\<exists>t. process_response resp = Inl t) \<or>
         (\<exists>e. process_response resp = Inr (failure 500 e None))"
proof (cases "candidates resp")
  case None
  then have "process_response resp = Inr (failure 500 ''No response from Gemini API'' None)"
    by (simp add: process_response_def)
  then show ?thesis by blast
next
  case (Some cs)
  show ?thesis
  proof (cases cs)
    case Nil
    with Some
    have "process_response resp = Inr (failure 500 ''No response from Gemini API'' None)"
      by (simp add: process_response_def)
    then show ?thesis by blast
  next
    case (Cons c rest)
    show ?thesis
    proof (cases c)
      case (Candidate ps)
      with Some Cons assms have "\<forall>part \<in> set ps. wp_inlineData part = None" by simp
      with Some Cons Candidate process_response_text_only [of resp ps rest]
      have "process_response resp = Inr (failure 500 ''No image data in Gemini response'' None)"
        by simp
      then show ?thesis by blast
    next
      case (Malformed msg)
      with Some Cons have "process_response resp = Inl (Error msg)"
        by (simp add: process_response_def)
      then show ?thesis by blast
    qed
  qed
qed

lemma POST_upstream:
  assumes "key \<noteq> []" and "truthy (prompt rq)" and "validate_image (inputImage rq) = None"
  shows "startChat m (formattedHistory (history rq)) = Some e \<Longrightarrow>
           POST key m (Some rq) =
             \<lparr>response = gemini_error e, calls = [StartChat (formattedHistory (history rq))]\<rparr>"
    and "startChat m (formattedHistory (history rq)) = None \<Longrightarrow>
         messageParts (the (prompt rq)) (inputImage rq) = Inr msg \<Longrightarrow>
         sendMessage m (formattedHistory (history rq)) msg = Inl e \<Longrightarrow>
           POST key m (Some rq) =
             \<lparr>response = gemini_error e,
              calls = [StartChat (formattedHistory (history rq)),
                       SendMessage (formattedHistory (history rq)) msg]\<rparr>"
  using assms by (simp_all add: POST_def POST_try_def Let_def)

text \<open>
  Claim C8, as amended. For a request that passes validation, a failure thrown by the
  external model, when the session is opened or when the message is sent, is caught: the
  handler returns status 500 with \<^verbatim>\<open>success: false\<close>, the error
  \<^verbatim>\<open>Gemini API error\<close> and details; the details are the underlying message when the
  thrown value is an \<^verbatim>\<open>Error\<close>, and the fixed text
  \<^verbatim>\<open>Unknown error in AI processing\<close> when it is not. Building the message never
  throws for such a request.
  For every input at all, a value thrown in the body of the handler (the only one left is
  a response whose first candidate has no readable parts) becomes the failure
  \<^verbatim>\<open>Failed to generate image\<close> with status 500 and the message as details, and the
  response of the handler is always a success with status 200, or a failure with an error
  and status 400 or 500.
\<close>

theorem upstream_failure_reported:
  assumes "key \<noteq> []" and "truthy (prompt rq)" and "validate_image (inputImage rq) = None"
  shows "(startChat m (formattedHistory (history rq)) = Some e \<longrightarrow>
            POST key m (Some rq) =
              \<lparr>response = failure 500 ''Gemini API error''
                  (Some (case e of Error msg \<Rightarrow> msg
                         | NonError v \<Rightarrow> ''Unknown error in AI processing'')),
               calls = [StartChat (formattedHistory (history rq))]\<rparr>) \<and>
         (startChat m (formattedHistory (history rq)) = None \<and>
          messageParts (the (prompt rq)) (inputImage rq) = Inr msg \<and>
          sendMessage m (formattedHistory (history rq)) msg = Inl e \<longrightarrow>
            POST key m (Some rq) =
              \<lparr>response = failure 500 ''Gemini API error''
                  (Some (case e of Error msg \<Rightarrow> msg
                         | NonError v \<Rightarrow> ''Unknown error in AI processing'')),
               calls = [StartChat (formattedHistory (history rq)),
                        SendMessage (formattedHistory (history rq)) msg]\<rparr>) \<and>
         (\<exists>msg. messageParts (the (prompt rq)) (inputImage rq) = Inr msg) \<and>
         (snd (POST_try key' m' rd) = Inl t \<longrightarrow>
            response (POST key' m' rd) =
              failure 500 ''Failed to generate image''
                (Some (case t of Error msg \<Rightarrow> msg | NonError v \<Rightarrow> v))) \<and>
         (r_success (response (POST key' m' rd)) \<longrightarrow> status (response (POST key' m' rd)) = 200) \<and>
         (\<not> r_success (response (POST key' m' rd)) \<longrightarrow>
            r_error (response (POST key' m' rd)) \<noteq> None \<and>
            (status (response (POST key' m' rd)) = 400 \<or>
             status (response (POST key' m' rd)) = 500))"
proof (intro conjI impI)
  assume "startChat m (formattedHistory (history rq)) = Some e"
  from POST_upstream(1) [OF assms this]
  show "POST key m (Some rq) =
              \<lparr>response = failure 500 ''Gemini API error''
                  (Some (case e of Error msg \<Rightarrow> msg
                         | NonError v \<Rightarrow> ''Unknown error in AI processing'')),
               calls = [StartChat (formattedHistory (history rq))]\<rparr>"
    by (simp add: gemini_error_def)
next
  assume "startChat m (formattedHistory (history rq)) = None \<and>
          messageParts (the (prompt rq)) (inputImage rq) = Inr msg \<and>
          sendMessage m (formattedHistory (history rq)) msg = Inl e"
  then have "POST key m (Some rq) =
             \<lparr>response = gemini_error e,
              calls = [StartChat (formattedHistory (history rq)),
                       SendMessage (formattedHistory (history rq)) msg]\<rparr>"
    using POST_upstream(2) [OF assms] by blast
  then show "POST key m (Some rq) =
              \<lparr>response = failure 500 ''Gemini API error''
                  (Some (case e of Error msg \<Rightarrow> msg
                         | NonError v \<Rightarrow> ''Unknown error in AI processing'')),
               calls = [StartChat (formattedHistory (history rq)),
                        SendMessage (formattedHistory (history rq)) msg]\<rparr>"
    by (simp add: gemini_error_def)
next
  show "\<exists>msg. messageParts (the (prompt rq)) (inputImage rq) = Inr msg"
    using assms(3) by (rule messageParts_valid_ex)
next
  assume "snd (POST_try key' m' rd) = Inl t"
  then show "response (POST key' m' rd) =
              failure 500 ''Failed to generate image''
                (Some (case t of Error msg \<Rightarrow> msg | NonError v \<Rightarrow> v))"
    by (simp add: response_POST)
next
  assume "r_success (response (POST key' m' rd))"
  with POST_envelope [of key' m' rd] show "status (response (POST key' m' rd)) = 200"
    by (auto simp: failure_sel)
next
  assume n: "\<not> r_success (response (POST key' m' rd))"
  with POST_envelope [of key' m' rd] show "r_error (response (POST key' m' rd)) \<noteq> None"
    by (auto simp: failure_sel)
  from n POST_envelope [of key' m' rd]
  show "status (response (POST key' m' rd)) = 400 \<or> status (response (POST key' m' rd)) = 500"
    by (auto simp: failure_sel)
qed

theorem upstream_failure_reported_witness:
  "POST ''key'' failing_model
     (Some \<lparr>prompt = Some ''a cat'', inputImage = None, history = None\<rparr>) =
     \<lparr>response = failure 500 ''Gemini API error'' (Some ''fetch failed''),
      calls = [StartChat [], SendMessage [] [text_part ''a cat'']]\<rparr>"
  using upstream_failure_reported [of "''key''" "\<lparr>prompt = Some ''a cat'', inputImage = None, history = None\<rparr>"
      failing_model "Error ''fetch failed''" "[text_part ''a cat'']"]
  by (simp add: failing_model_def validate_image_def messageParts_def formattedHistory_def)

text \<open>
  Claim C8, as stated, fails: when the external call throws a value that is not an
  \<^verbatim>\<open>Error\<close> (here the string \<^verbatim>\<open>quota exceeded\<close>), the details of the response
  are the fixed text of line 268, not the underlying message.
\<close>

theorem thrown_string_message_lost:
  "POST ''key'' string_throwing_model
     (Some \<lparr>prompt = Some ''a cat'', inputImage = None, history = None\<rparr>) =
     \<lparr>response = failure 500 ''Gemini API error'' (Some ''Unknown error in AI processing''),
      calls = [StartChat [], SendMessage [] [text_part ''a cat'']]\<rparr>"
  by (simp add: POST_def POST_try_def validate_image_def messageParts_def formattedHistory_def
      string_throwing_model_def gemini_error_def)

text \<open>
  Claim C2. The handler never returns a success without an image: whenever the response
  has \<^verbatim>\<open>success: true\<close>, its key \<^verbatim>\<open>image\<close> is present and the status is 200.
  When the request passes validation, the session opens and the model's reply has no
  inline-data part in its first candidate (a reply of text only, a reply without
  candidates, a candidate without readable parts), the handler returns a failure with
  status 500, an error and no image; for a first candidate of parts without inline data the
  response is the failure \<^verbatim>\<open>No image data in Gemini response\<close>.
\<close>

theorem success_envelope_has_image:
  "(r_success (response (POST key m rd)) \<longrightarrow>
      r_image (response (POST key m rd)) \<noteq> None \<and> status (response (POST key m rd)) = 200) \<and>
   (key \<noteq> [] \<and> truthy (prompt rq) \<and> validate_image (inputImage rq) = None \<and>
    startChat m (formattedHistory (history rq)) = None \<and>
    messageParts (the (prompt rq)) (inputImage rq) = Inr msg \<and>
    sendMessage m (formattedHistory (history rq)) msg = Inr resp \<and>
    (\<forall>ps rest. candidates resp = Some (Candidate ps # rest) \<longrightarrow>
       (\<forall>part \<in> set ps. wp_inlineData part = None)) \<longrightarrow>
      \<not> r_success (response (POST key m (Some rq))) \<and>
      status (response (POST key m (Some rq))) = 500 \<and>
      r_image (response (POST key m (Some rq))) = None \<and>
      r_error (response (POST key m (Some rq))) \<noteq> None \<and>
      (\<forall>ps rest. candidates resp = Some (Candidate ps # rest) \<longrightarrow>
         response (POST key m (Some rq)) =
           failure 500 ''No image data in Gemini response'' None))"
proof (intro conjI impI)
  assume "r_success (response (POST key m rd))"
  with POST_envelope [of key m rd]
  show "r_image (response (POST key m rd)) \<noteq> None" and "status (response (POST key m rd)) = 200"
    by (auto simp: failure_sel)
next
  assume h: "key \<noteq> [] \<and> truthy (prompt rq) \<and> validate_image (inputImage rq) = None \<and>
    startChat m (formattedHistory (history rq)) = None \<and>
    messageParts (the (prompt rq)) (inputImage rq) = Inr msg \<and>
    sendMessage m (formattedHistory (history rq)) msg = Inr resp \<and>
    (\<forall>ps rest. candidates resp = Some (Candidate ps # rest) \<longrightarrow>
       (\<forall>part \<in> set ps. wp_inlineData part = None))"
  then have "POST_try key m (Some rq) =
           ([StartChat (formattedHistory (history rq)), SendMessage (formattedHistory (history rq)) msg],
            process_response resp)"
    using POST_valid [of key rq m msg] by simp
  then have r: "response (POST key m (Some rq)) =
     (case process_response resp of
        Inr r \<Rightarrow> r
      | Inl e \<Rightarrow> failure 500 ''Failed to generate image''
                  (Some (case e of Error msg \<Rightarrow> msg | NonError v \<Rightarrow> v)))"
    by (simp add: response_POST)
  from h have ni: "\<forall>ps rest. candidates resp = Some (Candidate ps # rest) \<longrightarrow>
       (\<forall>part \<in> set ps. wp_inlineData part = None)" by blast
  from process_response_no_inline [OF ni]
  have f: "\<exists>e d. response (POST key m (Some rq)) = failure 500 e d"
  proof
    assume "\<exists>t. process_response resp = Inl t"
    then obtain t where "process_response resp = Inl t" by blast
    with r have "response (POST key m (Some rq)) =
        failure 500 ''Failed to generate image''
          (Some (case t of Error msg \<Rightarrow> msg | NonError v \<Rightarrow> v))"
      by simp
    then show ?thesis by blast
  next
    assume "\<exists>e. process_response resp = Inr (failure 500 e None)"
    then obtain e where "process_response resp = Inr (failure 500 e None)" by blast
    with r have "response (POST key m (Some rq)) = failure 500 e None" by simp
    then show ?thesis by blast
  qed
  then show "\<not> r_success (response (POST key m (Some rq)))"
    and "status (response (POST key m (Some rq))) = 500"
    and "r_image (response (POST key m (Some rq))) = None"
    and "r_error (response (POST key m (Some rq))) \<noteq> None"
    by (auto simp: failure_sel)
  show "\<forall>ps rest. candidates resp = Some (Candidate ps # rest) \<longrightarrow>
         response (POST key m (Some rq)) =
           failure 500 ''No image data in Gemini response'' None"
  proof (intro allI impI)
    fix ps rest
    assume c: "candidates resp = Some (Candidate ps # rest)"
    with ni have "\<forall>part \<in> set ps. wp_inlineData part = None" by blast
    from process_response_text_only [OF c this] r
    show "response (POST key m (Some rq)) =
           failure 500 ''No image data in Gemini response'' None"
      by simp
  qed
qed

theorem success_envelope_has_image_witness:
  "response (POST ''key'' text_only_model
     (Some \<lparr>prompt = Some ''a cat'', inputImage = None, history = None\<rparr>)) =
   failure 500 ''No image data in Gemini response'' None"
  using success_envelope_has_image [of "''key''" text_only_model
      "Some \<lparr>prompt = Some ''a cat'', inputImage = None, history = None\<rparr>"
      "\<lparr>prompt = Some ''a cat'', inputImage = None, history = None\<rparr>"
      "[text_part ''a cat'']"
      "\<lparr>candidates = Some [Candidate [text_part ''I cannot draw that'']]\<rparr>"]
  by (simp add: text_only_model_def validate_image_def messageParts_def formattedHistory_def
      text_part_def)

end
